theory Spec2Isabelle
  imports Complex_Main
begin

section \<open>Scan-session orchestration of the face-scan front end\<close>

text \<open>
  The repository holds two variants of the React component \<open>Step2_Scanning\<close>: the
  detector-equipped one (live face mesh, presence-loss restart, time-based progress) and
  the headless one of \<open>frontend/app.jsx\<close> (status polling only). Both are embedded here
  as state-passing functions over a record of the component's state.

  Conventions of the embedding:
  \<^item> React state (\<open>useState\<close>), refs (\<open>useRef\<close>) and the variables closed over by the
    interval callback (\<open>scanStartTime\<close>, \<open>consecutiveErrors\<close>, the captured
    \<open>faceDetected\<close>) are fields of one record;
  \<^item> \<open>Date.now()\<close> readings and the outcome of each awaited remote call are inputs of the
    function that performs them; a rejected promise is the value \<open>PollFail\<close> or a
    \<open>False\<close> outcome flag;
  \<^item> every remote request is appended to the field \<open>calls\<close>, so that "no request is
    issued" is a statement about that list;
  \<^item> timestamps are integers (milliseconds); percentages are exact rationals, the
    idealisation of the JavaScript numbers that the code computes;
  \<^item> a status body is a JSON object with the optional members read by the code;
  \<^item> a call of a state setter (\<open>setProgress\<close>, \<open>setMessage\<close>, ...) on the mounted
    component is the update of the corresponding field; once the component is unmounted
    React ignores such calls, while refs, closure variables, timers and the remote calls
    go on as before (\<open>settle\<close> below); messages are constructors of a datatype, one
    per message text of the source;
  \<^item> an asynchronous function is cut at its \<open>await\<close>: one function for the part that
    sends the request, one for the continuation, and their composition for a request
    that settles before the next event.
\<close>

subsection \<open>Remote interface\<close>

datatype api_call = CallStartScan string rat | CallGetStatus | CallReset

record status_data =
  status :: string
  progress_percent :: "rat option"
  status_message :: "string option"

datatype poll_result = PollOk status_data | PollFail string

subsection \<open>Detector-equipped variant: component state\<close>

datatype msg =
    MsgInitializing
  | MsgPositionFirst
  | MsgFaceLost
  | MsgScanning int
  | MsgKeepFace
  | MsgComplete
  | MsgReadyToScan
  | MsgResetFailed

datatype scan_error = ErrScanIssue | ErrStartFailed

record scan_state =
  scanning :: bool
  progress :: rat
  faceDetected :: bool
  message :: msg
  scanDuration :: rat
  error :: "scan_error option"
  pollInterval :: bool
  streamLive :: bool
  lastFaceSeen :: int
  scanStarted :: bool
  scanStartTime :: int
  consecutiveErrors :: nat
  closureFaceDetected :: bool
  onCompleteScheduled :: bool
  calls :: "api_call list"
  mounted :: bool

text \<open>
  \<open>mounted\<close> tells whether React still has the component mounted,
  \<open>pollInterval\<close> tells whether the timer held in \<open>pollIntervalRef\<close> is live,
  \<open>onCompleteScheduled\<close> whether \<open>setTimeout(() => onComplete(), 1500)\<close> has been
  issued, \<open>closureFaceDetected\<close> is the value of \<open>faceDetected\<close> captured by the
  closure of \<open>startScan\<close>. The state of a freshly mounted component, mounted at time
  \<open>t0\<close> (\<open>lastFaceSeenRef = useRef(Date.now())\<close>); the closure variables do not exist
  yet and hold placeholders until \<open>startScan\<close> sets them:
\<close>

definition initial_state :: "int \<Rightarrow> scan_state" where
  "initial_state t0 =
     \<lparr> scanning = False, progress = 0, faceDetected = False, message = MsgInitializing,
       scanDuration = 45, error = None, pollInterval = False, streamLive = True,
       lastFaceSeen = t0, scanStarted = False, scanStartTime = 0, consecutiveErrors = 0,
       closureFaceDetected = False, onCompleteScheduled = False, calls = [],
       mounted = True \<rparr>"

text \<open>\<open>Math.round\<close>: nearest integer, halves upwards.\<close>

definition js_round :: "rat \<Rightarrow> int" where
  "js_round x = \<lfloor>x + 1 / 2\<rfloor>"

subsection \<open>Presence tracking\<close>

text \<open>\<open>onFaceResults\<close>, reduced to its effect on the component (drawing left out).\<close>

definition onFaceResults :: "scan_state \<Rightarrow> bool \<Rightarrow> int \<Rightarrow> scan_state" where
  "onFaceResults s present now =
     (if present then s\<lparr>faceDetected := True, lastFaceSeen := now\<rparr>
      else s\<lparr>faceDetected := False\<rparr>)"

text \<open>\<open>const timeSinceFace = Date.now() - lastFaceSeenRef.current\<close>\<close>

definition timeSinceFace :: "scan_state \<Rightarrow> int \<Rightarrow> int" where
  "timeSinceFace s now = now - lastFaceSeen s"

subsection \<open>Progress\<close>

text \<open>\<open>Math.min((timeElapsed / (scanDuration * 1000)) * 100, 99)\<close>\<close>

definition timeBasedProgress :: "rat \<Rightarrow> int \<Rightarrow> rat" where
  "timeBasedProgress d timeElapsed = min ((of_int timeElapsed / (d * 1000)) * 100) 99"

text \<open>\<open>statusData.progress_percent || 0\<close>\<close>

definition apiProgress :: "status_data \<Rightarrow> rat" where
  "apiProgress sd = (case progress_percent sd of None \<Rightarrow> 0 | Some p \<Rightarrow> p)"

subsection \<open>Starting a scan\<close>

text \<open>
  \<open>startScan\<close> runs synchronously up to \<open>await api.startScan\<close> (\<open>startScan_begin\<close>)
  and continues when the request settles (\<open>startScan_resume\<close>); \<open>startScan\<close> is the
  two run back to back.
\<close>

definition startScan_begin :: "scan_state \<Rightarrow> int \<Rightarrow> scan_state" where
  "startScan_begin s now =
     s\<lparr> scanning := True, scanStarted := True, progress := 0, error := None,
        scanStartTime := now, consecutiveErrors := 0,
        closureFaceDetected := faceDetected s,
        calls := calls s @ [CallStartScan ''pos'' (scanDuration s)] \<rparr>"

definition startScan_resume :: "scan_state \<Rightarrow> bool \<Rightarrow> scan_state" where
  "startScan_resume s ok =
     (if ok then s\<lparr>pollInterval := True\<rparr>
      else s\<lparr>error := Some ErrStartFailed, scanning := False, scanStarted := False\<rparr>)"

definition startScan :: "scan_state \<Rightarrow> int \<Rightarrow> bool \<Rightarrow> scan_state" where
  "startScan s now ok =
     (if \<not> faceDetected s then s\<lparr>message := MsgPositionFirst\<rparr>
      else startScan_resume (startScan_begin s now) ok)"

subsection \<open>The poll tick\<close>

record tick_obs =
  now_check :: int
  now_elapsed :: int
  now_restart :: int
  reset_ok :: bool
  start_ok :: bool
  poll :: poll_result

text \<open>
  \<open>now_check\<close>, \<open>now_elapsed\<close> and \<open>now_restart\<close> are the three \<open>Date.now()\<close>
  readings of the callback (presence check, elapsed time, end of the restart branch);
  \<open>reset_ok\<close>, \<open>start_ok\<close> and \<open>poll\<close> are the outcomes of \<open>api.reset\<close>,
  \<open>api.startScan\<close> and \<open>api.getStatus\<close>.
\<close>

definition complete_scan :: "scan_state \<Rightarrow> scan_state" where
  "complete_scan s =
     s\<lparr> pollInterval := False, scanning := False, progress := 100,
        message := MsgComplete, onCompleteScheduled := True \<rparr>"

definition scanning_message :: "scan_state \<Rightarrow> rat \<Rightarrow> msg" where
  "scanning_message s p =
     (if closureFaceDetected s then MsgScanning (js_round p) else MsgKeepFace)"

text \<open>The face-lost branch: reset, start again, refresh the presence timestamp.\<close>

definition faceLostRestart :: "scan_state \<Rightarrow> tick_obs \<Rightarrow> scan_state" where
  "faceLostRestart s obs =
     (let s1 = s\<lparr>message := MsgFaceLost, progress := 0, calls := calls s @ [CallReset]\<rparr>;
          s2 = (if reset_ok obs
                then (let s3 = s1\<lparr>calls := calls s1 @ [CallStartScan ''pos'' (scanDuration s)]\<rparr>
                      in if start_ok obs then s3\<lparr>consecutiveErrors := 0\<rparr> else s3)
                else s1)
      in s2\<lparr>lastFaceSeen := now_restart obs\<rparr>)"

text \<open>
  The continuation of the callback after \<open>await api.getStatus()\<close>; \<open>timeElapsed\<close> was
  computed before the request was sent.
\<close>

definition pollResponse :: "scan_state \<Rightarrow> int \<Rightarrow> poll_result \<Rightarrow> scan_state" where
  "pollResponse s timeElapsed r =
     (let tbp = timeBasedProgress (scanDuration s) timeElapsed in
      case r of
        PollOk sd \<Rightarrow>
          (let currentProgress = max (apiProgress sd) tbp;
               s1 = s\<lparr> consecutiveErrors := 0, progress := currentProgress,
                       message := scanning_message s currentProgress \<rparr>
           in if of_int timeElapsed \<ge> scanDuration s * 1000 then complete_scan s1
              else if status sd = ''complete'' then complete_scan s1
              else if status sd = ''error'' \<and> of_int timeElapsed < scanDuration s * 1000 * 0.8
                then s1\<lparr> pollInterval := False, scanning := False,
                         error := Some ErrScanIssue, scanStarted := False \<rparr>
              else s1)
      | PollFail e \<Rightarrow>
          (let s1 = s\<lparr>consecutiveErrors := consecutiveErrors s + 1\<rparr>
           in if consecutiveErrors s1 > 5 \<and> tbp > 50 then complete_scan s1
              else (let s2 = s1\<lparr>progress := tbp, message := scanning_message s tbp\<rparr>
                    in if of_int timeElapsed \<ge> scanDuration s * 1000 then complete_scan s2
                       else s2)))"

text \<open>
  The callback of \<open>setInterval\<close>. \<open>pollRequest\<close> is the sending of the status
  request, the last thing the callback does before it suspends.
\<close>

definition pollRequest :: "scan_state \<Rightarrow> scan_state" where
  "pollRequest s = s\<lparr>calls := calls s @ [CallGetStatus]\<rparr>"

definition faceLost :: "scan_state \<Rightarrow> tick_obs \<Rightarrow> bool" where
  "faceLost s obs \<longleftrightarrow> timeSinceFace s (now_check obs) > 3000 \<and> scanStarted s"

definition timeElapsed :: "scan_state \<Rightarrow> tick_obs \<Rightarrow> int" where
  "timeElapsed s obs = now_elapsed obs - scanStartTime s"

definition pollTick :: "scan_state \<Rightarrow> tick_obs \<Rightarrow> scan_state" where
  "pollTick s obs =
     (if faceLost s obs then faceLostRestart s obs
      else pollResponse (pollRequest s) (timeElapsed s obs) (poll obs))"

text \<open>\<open>cleanup\<close>: clear the interval, stop the camera tracks.\<close>

definition cleanup :: "scan_state \<Rightarrow> scan_state" where
  "cleanup s = s\<lparr>pollInterval := False, streamLive := False\<rparr>"

text \<open>
  \<open>cleanup\<close> has one call site, the function returned by the mount effect
  (\<open>useEffect(() => { initCamera(); return () => { cleanup(); }; }, [])\<close>), which React
  runs when it unmounts the component.
\<close>

definition unmount :: "scan_state \<Rightarrow> scan_state" where
  "unmount s = (cleanup s)\<lparr>mounted := False\<rparr>"

text \<open>
  A continuation that resumes after an \<open>await\<close> finds the component mounted or not.
  The functions above are the continuations on the mounted component. On an unmounted
  one they run the same statements, but their setter calls have no effect: the fields
  held in React state (\<open>scanning\<close>, \<open>progress\<close>, \<open>faceDetected\<close>, \<open>message\<close>,
  \<open>error\<close>) keep their values, and only what goes through refs, closure variables,
  timers and \<open>setTimeout\<close> changes. No continuation reads one of these five fields
  (the callback reads the \<open>faceDetected\<close> captured by its closure), so its control
  flow is the same in both cases.
\<close>

definition keepState :: "scan_state \<Rightarrow> scan_state \<Rightarrow> scan_state" where
  "keepState s s' =
     s'\<lparr> scanning := scanning s, progress := progress s, faceDetected := faceDetected s,
         message := message s, error := error s \<rparr>"

definition settle :: "scan_state \<Rightarrow> (scan_state \<Rightarrow> scan_state) \<Rightarrow> scan_state" where
  "settle s k = (if mounted s then k s else keepState s (k s))"

text \<open>
  The arrival of the response to a status request sent when the elapsed time was
  \<open>elapsed\<close>, and the arrival of the response to a start request.
\<close>

definition pollResponse_arrives :: "scan_state \<Rightarrow> int \<Rightarrow> poll_result \<Rightarrow> scan_state" where
  "pollResponse_arrives s elapsed r = settle s (\<lambda>u. pollResponse u elapsed r)"

definition startResponse_arrives :: "scan_state \<Rightarrow> bool \<Rightarrow> scan_state" where
  "startResponse_arrives s ok = settle s (\<lambda>u. startScan_resume u ok)"

text \<open>
  \<open>handleRetry\<close>, the handler of the Retry button; \<open>ok\<close> is the outcome of
  \<open>api.reset\<close>. The message \<open>Resetting...\<close> is replaced when the request settles.
\<close>

definition handleRetry :: "scan_state \<Rightarrow> bool \<Rightarrow> scan_state" where
  "handleRetry s ok =
     s\<lparr> error := None, scanning := False, progress := 0, scanStarted := False,
        calls := calls s @ [CallReset],
        message := (if ok then MsgReadyToScan else MsgResetFailed) \<rparr>"

subsection \<open>Event sequences\<close>

text \<open>
  The component reacts to frames of the detector and to ticks of the interval timer; a
  tick only fires while the timer is live.
\<close>

datatype event = FaceResult bool int | Tick tick_obs

fun step :: "scan_state \<Rightarrow> event \<Rightarrow> scan_state" where
  "step s (FaceResult present now) = onFaceResults s present now"
| "step s (Tick obs) = (if pollInterval s then pollTick s obs else s)"

fun run :: "scan_state \<Rightarrow> event list \<Rightarrow> scan_state" where
  "run s [] = s"
| "run s (e # es) = run (step s e) es"

subsection \<open>Headless variant (\<open>frontend/app.jsx\<close>)\<close>

datatype hl_msg =
    HlEmpty
  | HlStarting
  | HlInProgress
  | HlServer string
  | HlScanning int
  | HlComplete
  | HlFailed
  | HlErrorMsg

datatype hl_error = HlScanFailed | HlLostConnection string | HlStartFailed string

datatype start_result = StartOk | StartFail string

record hl_state =
  hl_scanning :: bool
  hl_progress :: rat
  hl_message :: hl_msg
  hl_scanDuration :: rat
  hl_error :: "hl_error option"
  hl_pollInterval :: bool
  hl_onCompleteScheduled :: bool
  hl_calls :: "api_call list"

definition hl_initial_state :: hl_state where
  "hl_initial_state =
     \<lparr> hl_scanning = False, hl_progress = 0, hl_message = HlEmpty, hl_scanDuration = 45,
       hl_error = None, hl_pollInterval = False, hl_onCompleteScheduled = False,
       hl_calls = [] \<rparr>"

definition hl_startScan :: "hl_state \<Rightarrow> start_result \<Rightarrow> hl_state" where
  "hl_startScan s r =
     (let s1 = s\<lparr> hl_scanning := True, hl_progress := 0, hl_error := None,
                   hl_message := HlStarting,
                   hl_calls := hl_calls s @ [CallStartScan ''pos'' (hl_scanDuration s)] \<rparr>
      in case r of
           StartOk \<Rightarrow> s1\<lparr>hl_message := HlInProgress, hl_pollInterval := True\<rparr>
         | StartFail m \<Rightarrow>
             s1\<lparr>hl_error := Some (HlStartFailed m), hl_scanning := False,
                hl_message := HlErrorMsg\<rparr>)"

text \<open>\<open>statusData.message || `Scanning... ${Math.round(currentProgress)}%`\<close>\<close>

definition hl_status_message :: "status_data \<Rightarrow> rat \<Rightarrow> hl_msg" where
  "hl_status_message sd p =
     (case status_message sd of
        None \<Rightarrow> HlScanning (js_round p)
      | Some m \<Rightarrow> if m = [] then HlScanning (js_round p) else HlServer m)"

definition hl_pollTick :: "hl_state \<Rightarrow> poll_result \<Rightarrow> hl_state" where
  "hl_pollTick s r =
     (let s0 = s\<lparr>hl_calls := hl_calls s @ [CallGetStatus]\<rparr> in
      case r of
        PollOk sd \<Rightarrow>
          (let currentProgress = apiProgress sd;
               s1 = s0\<lparr> hl_progress := currentProgress,
                        hl_message := hl_status_message sd currentProgress \<rparr>
           in if status sd = ''complete''
                then s1\<lparr> hl_pollInterval := False, hl_scanning := False,
                         hl_message := HlComplete, hl_onCompleteScheduled := True \<rparr>
              else if status sd = ''error''
                then s1\<lparr> hl_pollInterval := False, hl_scanning := False,
                         hl_error := Some HlScanFailed, hl_message := HlFailed \<rparr>
              else s1)
      | PollFail m \<Rightarrow>
          s0\<lparr> hl_error := Some (HlLostConnection m), hl_pollInterval := False,
              hl_scanning := False \<rparr>)"

subsection \<open>Scenario inputs\<close>

text \<open>
  A session of the detector-equipped variant: component mounted at time 0, a face seen at
  900 ms, scan started at 1000 ms, start request accepted.
\<close>

definition running_example :: scan_state where
  "running_example = startScan (onFaceResults (initial_state 0) True 900) 1000 True"

text \<open>A tick at time \<open>t\<close> whose status request fails, and one whose request succeeds.\<close>

definition failing_obs :: "int \<Rightarrow> tick_obs" where
  "failing_obs t =
     \<lparr> now_check = t, now_elapsed = t, now_restart = t, reset_ok = True, start_ok = True,
       poll = PollFail ''Failed to get status'' \<rparr>"

definition ok_obs :: "int \<Rightarrow> string \<Rightarrow> rat option \<Rightarrow> tick_obs" where
  "ok_obs t st p =
     \<lparr> now_check = t, now_elapsed = t, now_restart = t, reset_ok = True, start_ok = True,
       poll = PollOk \<lparr>status = st, progress_percent = p, status_message = None\<rparr> \<rparr>"

text \<open>
  The same session 29.5 s into the scan, after a tick whose status request succeeded, and
  five further ticks, 500 ms apart, whose requests all fail while frames keep showing a
  face.
\<close>

definition midway_example :: scan_state where
  "midway_example =
     run running_example [FaceResult True 30400, Tick (ok_obs 30500 ''running'' (Some 60))]"

definition five_failures :: "event list" where
  "five_failures =
     [FaceResult True 30900, Tick (failing_obs 31000),
      FaceResult True 31400, Tick (failing_obs 31500),
      FaceResult True 31900, Tick (failing_obs 32000),
      FaceResult True 32400, Tick (failing_obs 32500),
      FaceResult True 32900, Tick (failing_obs 33000)]"

text \<open>
  A session in which two status requests overlap. The tick at 5500 ms sends its request
  (elapsed time 4500 ms) and the response is delayed; the tick at 6000 ms is answered at
  once with status \<open>error\<close>, which ends the session with an error; the user then
  presses Retry, and the reset succeeds. The first request is still in flight.
\<close>

definition retried_example :: scan_state where
  "retried_example =
     handleRetry
       (run (pollRequest (run running_example [FaceResult True 5400]))
          [FaceResult True 5900, Tick (ok_obs 6000 ''error'' None)])
       True"

text \<open>Frames at the times \<open>ts\<close>, none of which shows a face.\<close>

definition no_face_frames :: "int list \<Rightarrow> event list" where
  "no_face_frames ts = map (FaceResult False) ts"

text \<open>A headless session whose start request was accepted.\<close>

definition hl_running_example :: hl_state where
  "hl_running_example = hl_startScan hl_initial_state StartOk"

subsection \<open>Runs of failing ticks\<close>

definition is_fail :: "poll_result \<Rightarrow> bool" where
  "is_fail r = (case r of PollFail m \<Rightarrow> True | PollOk sd \<Rightarrow> False)"

text \<open>
  \<open>failing_ticks s evs\<close>: along the run of \<open>evs\<close> from \<open>s\<close>, every tick reaches the
  status request (no face-lost restart), its request fails, and it happens before the
  configured duration has elapsed. Frames may come in between.
\<close>

fun failing_ticks :: "scan_state \<Rightarrow> event list \<Rightarrow> bool" where
  "failing_ticks s [] = True"
| "failing_ticks s (FaceResult present now # es) =
     failing_ticks (step s (FaceResult present now)) es"
| "failing_ticks s (Tick obs # es) =
     (\<not> faceLost s obs \<and> is_fail (poll obs)
      \<and> of_int (timeElapsed s obs) < scanDuration s * 1000
      \<and> failing_ticks (step s (Tick obs)) es)"

fun count_ticks :: "event list \<Rightarrow> nat" where
  "count_ticks [] = 0"
| "count_ticks (FaceResult present now # es) = count_ticks es"
| "count_ticks (Tick obs # es) = Suc (count_ticks es)"

section \<open>Properties\<close>

subsection \<open>Single ticks whose status request fails\<close>

lemmas scenario_defs = running_example_def midway_example_def five_failures_def
  failing_obs_def ok_obs_def initial_state_def startScan_def startScan_begin_def
  startScan_resume_def onFaceResults_def

lemmas tick_defs = pollTick_def pollRequest_def pollResponse_def faceLost_def timeElapsed_def
  timeSinceFace_def timeBasedProgress_def complete_scan_def scanning_message_def
  faceLostRestart_def is_fail_def apiProgress_def js_round_def

lemma timeBasedProgress_le_99: "timeBasedProgress d e \<le> 99"
  by (simp add: timeBasedProgress_def)

lemma pollTick_fail_continue:
  assumes "\<not> faceLost s obs" "is_fail (poll obs)"
    and "of_int (timeElapsed s obs) < scanDuration s * 1000"
    and "\<not> (consecutiveErrors s + 1 > 5 \<and> timeBasedProgress (scanDuration s) (timeElapsed s obs) > 50)"
  shows "pollTick s obs =
           s\<lparr> calls := calls s @ [CallGetStatus],
              consecutiveErrors := consecutiveErrors s + 1,
              progress := timeBasedProgress (scanDuration s) (timeElapsed s obs),
              message := scanning_message s (timeBasedProgress (scanDuration s) (timeElapsed s obs)) \<rparr>"
  using assms
  by (cases "poll obs")
     (auto simp add: pollTick_def pollRequest_def pollResponse_def is_fail_def Let_def
        scanning_message_def)

lemma pollTick_fail_complete:
  assumes "\<not> faceLost s obs" "is_fail (poll obs)"
    and "consecutiveErrors s + 1 > 5" "timeBasedProgress (scanDuration s) (timeElapsed s obs) > 50"
  shows "pollTick s obs =
           complete_scan (s\<lparr> calls := calls s @ [CallGetStatus],
              consecutiveErrors := consecutiveErrors s + 1\<rparr>)"
  using assms
  by (cases "poll obs")
     (simp_all add: pollTick_def pollRequest_def pollResponse_def is_fail_def Let_def)

lemma failing_run_keeps_polling:
  assumes "pollInterval s" "failing_ticks s evs" "consecutiveErrors s + count_ticks evs \<le> 5"
  shows "pollInterval (run s evs)
       \<and> consecutiveErrors (run s evs) = consecutiveErrors s + count_ticks evs
       \<and> onCompleteScheduled (run s evs) = onCompleteScheduled s
       \<and> scanning (run s evs) = scanning s
       \<and> error (run s evs) = error s
       \<and> scanStartTime (run s evs) = scanStartTime s
       \<and> scanDuration (run s evs) = scanDuration s
       \<and> (progress s \<le> 99 \<or> 0 < count_ticks evs \<longrightarrow> progress (run s evs) \<le> 99)"
  using assms
proof (induction evs arbitrary: s)
  case Nil
  then show ?case by simp
next
  case (Cons e es)
  show ?case
  proof (cases e)
    case (FaceResult present now)
    with Cons.prems Cons.IH [of "onFaceResults s present now"] show ?thesis
      by (simp add: onFaceResults_def split: if_splits)
  next
    case (Tick obs)
    with Cons.prems have a: "\<not> faceLost s obs" "is_fail (poll obs)"
      "of_int (timeElapsed s obs) < scanDuration s * 1000" "consecutiveErrors s + 1 \<le> 5"
      and ft: "failing_ticks (pollTick s obs) es"
      by simp_all
    let ?s' = "pollTick s obs"
    have eq: "?s' = s\<lparr> calls := calls s @ [CallGetStatus],
              consecutiveErrors := consecutiveErrors s + 1,
              progress := timeBasedProgress (scanDuration s) (timeElapsed s obs),
              message := scanning_message s (timeBasedProgress (scanDuration s) (timeElapsed s obs)) \<rparr>"
      using a by (intro pollTick_fail_continue) simp_all
    have p: "pollInterval ?s'" "consecutiveErrors ?s' = consecutiveErrors s + 1"
      "onCompleteScheduled ?s' = onCompleteScheduled s" "scanning ?s' = scanning s"
      "error ?s' = error s" "scanStartTime ?s' = scanStartTime s"
      "scanDuration ?s' = scanDuration s" "progress ?s' \<le> 99"
      using Cons.prems(1) by (simp_all add: eq timeBasedProgress_le_99)
    have "consecutiveErrors ?s' + count_ticks es \<le> 5"
      using Cons.prems(3) Tick p(2) by simp
    from Cons.IH [OF p(1) ft this] p Tick Cons.prems(1) show ?thesis
      by simp
  qed
qed

subsection \<open>Consecutive failures\<close>

text \<open>
  Claim C1 (as amended). The claim says that the fifth consecutive failed status request
  forces completion once time-based progress exceeds 50. The code tests
  \<open>consecutiveErrors > 5\<close> after the increment, so it is the sixth: in a polling session
  whose failure counter is 0, up to five consecutive failing ticks before the configured
  duration leave the session polling and not completed, whatever the time-based progress;
  after five of them, one more failing tick with time-based progress above 50 stops the
  timer, sets progress to 100 and schedules \<open>onComplete\<close>.
\<close>

theorem C1_sixth_failure_forces_complete:
  assumes "pollInterval s" and "consecutiveErrors s = 0" and "\<not> onCompleteScheduled s"
    and "failing_ticks s evs"
  shows "(count_ticks evs \<le> 5 \<longrightarrow>
            pollInterval (run s evs) \<and> \<not> onCompleteScheduled (run s evs)
            \<and> scanning (run s evs) = scanning s
            \<and> consecutiveErrors (run s evs) = count_ticks evs
            \<and> (0 < count_ticks evs \<longrightarrow> progress (run s evs) < 100))
       \<and> (count_ticks evs = 5 \<longrightarrow>
            (\<forall>obs. \<not> faceLost (run s evs) obs \<and> is_fail (poll obs)
                   \<and> 50 < timeBasedProgress (scanDuration (run s evs)) (timeElapsed (run s evs) obs)
               \<longrightarrow> \<not> pollInterval (step (run s evs) (Tick obs))
                   \<and> onCompleteScheduled (step (run s evs) (Tick obs))
                   \<and> \<not> scanning (step (run s evs) (Tick obs))
                   \<and> progress (step (run s evs) (Tick obs)) = 100))"
proof (intro conjI impI allI)
  assume le: "count_ticks evs \<le> 5"
  with assms have inv: "pollInterval (run s evs)
       \<and> consecutiveErrors (run s evs) = consecutiveErrors s + count_ticks evs
       \<and> onCompleteScheduled (run s evs) = onCompleteScheduled s
       \<and> scanning (run s evs) = scanning s
       \<and> error (run s evs) = error s
       \<and> scanStartTime (run s evs) = scanStartTime s
       \<and> scanDuration (run s evs) = scanDuration s
       \<and> (progress s \<le> 99 \<or> 0 < count_ticks evs \<longrightarrow> progress (run s evs) \<le> 99)"
    by (intro failing_run_keeps_polling) simp_all
  from inv show "pollInterval (run s evs)" by simp
  from inv assms show "\<not> onCompleteScheduled (run s evs)" by simp
  from inv show "scanning (run s evs) = scanning s" by simp
  from inv assms show "consecutiveErrors (run s evs) = count_ticks evs" by simp
  { assume "0 < count_ticks evs"
    with inv have "progress (run s evs) \<le> 99" by simp
    then show "progress (run s evs) < 100" by simp }
next
  fix obs
  assume five: "count_ticks evs = 5"
    and o: "\<not> faceLost (run s evs) obs \<and> is_fail (poll obs)
          \<and> 50 < timeBasedProgress (scanDuration (run s evs)) (timeElapsed (run s evs) obs)"
  let ?r = "run s evs"
  from assms five have inv: "pollInterval ?r" "consecutiveErrors ?r = 5"
    using failing_run_keeps_polling [of s evs] by simp_all
  have eq: "pollTick ?r obs =
      complete_scan (?r\<lparr> calls := calls ?r @ [CallGetStatus],
              consecutiveErrors := consecutiveErrors ?r + 1\<rparr>)"
    using o inv by (intro pollTick_fail_complete) simp_all
  show "\<not> pollInterval (step ?r (Tick obs))" "onCompleteScheduled (step ?r (Tick obs))"
    "\<not> scanning (step ?r (Tick obs))" "progress (step ?r (Tick obs)) = 100"
    using inv(1) by (simp_all add: eq complete_scan_def)
qed

theorem C1_sixth_failure_forces_complete_witness:
  "pollInterval midway_example \<and> consecutiveErrors midway_example = 0
   \<and> \<not> onCompleteScheduled midway_example
   \<and> failing_ticks midway_example five_failures
   \<and> count_ticks five_failures = 5
   \<and> \<not> faceLost (run midway_example five_failures) (failing_obs 33500)
   \<and> is_fail (poll (failing_obs 33500))
   \<and> 50 < timeBasedProgress (scanDuration (run midway_example five_failures))
             (timeElapsed (run midway_example five_failures) (failing_obs 33500))
   \<and> pollInterval (run midway_example five_failures)
   \<and> \<not> onCompleteScheduled (run midway_example five_failures)
   \<and> progress (run midway_example five_failures) < 100
   \<and> onCompleteScheduled (step (run midway_example five_failures) (Tick (failing_obs 33500)))
   \<and> progress (step (run midway_example five_failures) (Tick (failing_obs 33500))) = 100"
proof -
  have h: "pollInterval midway_example" "consecutiveErrors midway_example = 0"
    "\<not> onCompleteScheduled midway_example" "failing_ticks midway_example five_failures"
    by (simp_all add: scenario_defs tick_defs Let_def)
  have c: "count_ticks five_failures = 5"
    by (simp add: five_failures_def)
  have o: "\<not> faceLost (run midway_example five_failures) (failing_obs 33500)"
    "is_fail (poll (failing_obs 33500))"
    "50 < timeBasedProgress (scanDuration (run midway_example five_failures))
             (timeElapsed (run midway_example five_failures) (failing_obs 33500))"
    by (simp_all add: scenario_defs tick_defs Let_def)
  note main = C1_sixth_failure_forces_complete [OF h]
  from main c have a: "pollInterval (run midway_example five_failures)"
    "\<not> onCompleteScheduled (run midway_example five_failures)"
    "progress (run midway_example five_failures) < 100"
    by simp_all
  from main c o
  have b: "onCompleteScheduled (step (run midway_example five_failures) (Tick (failing_obs 33500)))
         \<and> progress (step (run midway_example five_failures) (Tick (failing_obs 33500))) = 100"
    by blast
  from h c o a b show ?thesis
    by blast
qed

text \<open>
  Claim C1 as stated fails: after exactly five consecutive failed requests, the fifth at
  32 s of 45 s (time-based progress 71.1), the session is still polling and has not
  completed.
\<close>

theorem C1_five_failures_counterexample:
  "pollInterval midway_example \<and> consecutiveErrors midway_example = 0
   \<and> failing_ticks midway_example five_failures
   \<and> count_ticks five_failures = 5
   \<and> 50 < timeBasedProgress (scanDuration midway_example) (33000 - scanStartTime midway_example)
   \<and> pollInterval (run midway_example five_failures)
   \<and> scanning (run midway_example five_failures)
   \<and> \<not> onCompleteScheduled (run midway_example five_failures)
   \<and> progress (run midway_example five_failures) = 640 / 9
   \<and> consecutiveErrors (run midway_example five_failures) = 5"
  by (simp add: scenario_defs tick_defs Let_def)

subsection \<open>Starting without a face\<close>

text \<open>
  Claim C10. In the detector-equipped variant, calling \<open>startScan\<close> while no face is
  detected only sets the advisory message: no remote request is issued, the session
  neither starts nor polls, progress and error keep their prior values.
\<close>

theorem C10_startScan_without_face:
  assumes "\<not> faceDetected s"
  shows "startScan s now ok = s\<lparr>message := MsgPositionFirst\<rparr>
       \<and> calls (startScan s now ok) = calls s
       \<and> scanning (startScan s now ok) = scanning s
       \<and> pollInterval (startScan s now ok) = pollInterval s
       \<and> scanStarted (startScan s now ok) = scanStarted s
       \<and> progress (startScan s now ok) = progress s
       \<and> error (startScan s now ok) = error s"
  using assms by (simp add: startScan_def)

theorem C10_startScan_without_face_witness:
  "\<not> faceDetected (initial_state 0)
   \<and> startScan (initial_state 0) 10 True = (initial_state 0)\<lparr>message := MsgPositionFirst\<rparr>
   \<and> calls (startScan (initial_state 0) 10 True) = []"
  using C10_startScan_without_face [of "initial_state 0" 10 True]
  by (simp add: initial_state_def)

subsection \<open>Single ticks: verdicts\<close>

lemmas hl_defs = hl_running_example_def hl_initial_state_def hl_startScan_def hl_pollTick_def
  hl_status_message_def apiProgress_def js_round_def

lemma pollTick_time_complete:
  assumes "\<not> faceLost s obs" and "scanDuration s * 1000 \<le> of_int (timeElapsed s obs)"
  shows "\<not> pollInterval (pollTick s obs) \<and> \<not> scanning (pollTick s obs)
       \<and> progress (pollTick s obs) = 100 \<and> message (pollTick s obs) = MsgComplete
       \<and> onCompleteScheduled (pollTick s obs) \<and> error (pollTick s obs) = error s"
proof (cases "poll obs")
  case (PollOk sd)
  with assms show ?thesis
    by (simp add: pollTick_def pollRequest_def pollResponse_def Let_def complete_scan_def)
next
  case (PollFail m)
  with assms show ?thesis
    by (simp add: pollTick_def pollRequest_def pollResponse_def Let_def complete_scan_def)
qed

lemma pollTick_ok_continue:
  assumes "\<not> faceLost s obs" and "poll obs = PollOk sd"
    and "of_int (timeElapsed s obs) < scanDuration s * 1000"
    and "status sd \<noteq> ''complete''"
    and "\<not> (status sd = ''error'' \<and> of_int (timeElapsed s obs) < scanDuration s * 1000 * 0.8)"
  shows "pollTick s obs =
           s\<lparr> calls := calls s @ [CallGetStatus], consecutiveErrors := 0,
              progress := max (apiProgress sd) (timeBasedProgress (scanDuration s) (timeElapsed s obs)),
              message := scanning_message s
                 (max (apiProgress sd) (timeBasedProgress (scanDuration s) (timeElapsed s obs))) \<rparr>"
  using assms
  by (auto simp add: pollTick_def pollRequest_def pollResponse_def Let_def scanning_message_def)

lemma pollTick_early_error:
  assumes "\<not> faceLost s obs" and "poll obs = PollOk sd" and "status sd = ''error''"
    and "of_int (timeElapsed s obs) < scanDuration s * 1000"
    and "of_int (timeElapsed s obs) < scanDuration s * 1000 * 0.8"
  shows "pollTick s obs =
           s\<lparr> calls := calls s @ [CallGetStatus], consecutiveErrors := 0,
              progress := max (apiProgress sd) (timeBasedProgress (scanDuration s) (timeElapsed s obs)),
              message := scanning_message s
                 (max (apiProgress sd) (timeBasedProgress (scanDuration s) (timeElapsed s obs))),
              pollInterval := False, scanning := False, error := Some ErrScanIssue,
              scanStarted := False \<rparr>"
  using assms
  by (auto simp add: pollTick_def pollRequest_def pollResponse_def Let_def scanning_message_def)

text \<open>
  Claim C2 (as amended). In the detector-equipped variant, every tick that reaches the
  status request (no face-lost restart on that tick) with
  \<open>timeElapsed \<ge> scanDuration * 1000\<close> completes the scan, whatever the request returns:
  any status, \<open>error\<close> included, or a failure. The headless variant has no elapsed-time
  rule: there a reported \<open>error\<close> and a failed request each end the session with an
  error, without completion.
\<close>

theorem C2_elapsed_time_completes:
  "(\<not> faceLost s obs \<and> scanDuration s * 1000 \<le> of_int (timeElapsed s obs) \<longrightarrow>
      \<not> pollInterval (pollTick s obs) \<and> \<not> scanning (pollTick s obs)
      \<and> progress (pollTick s obs) = 100 \<and> message (pollTick s obs) = MsgComplete
      \<and> onCompleteScheduled (pollTick s obs) \<and> error (pollTick s obs) = error s)
   \<and> (status sd = ''error'' \<longrightarrow>
        hl_error (hl_pollTick h (PollOk sd)) = Some HlScanFailed
        \<and> \<not> hl_pollInterval (hl_pollTick h (PollOk sd))
        \<and> hl_onCompleteScheduled (hl_pollTick h (PollOk sd)) = hl_onCompleteScheduled h)
   \<and> hl_error (hl_pollTick h (PollFail m)) = Some (HlLostConnection m)
   \<and> \<not> hl_pollInterval (hl_pollTick h (PollFail m))
   \<and> hl_onCompleteScheduled (hl_pollTick h (PollFail m)) = hl_onCompleteScheduled h"
proof (intro conjI impI)
  assume a: "\<not> faceLost s obs \<and> scanDuration s * 1000 \<le> of_int (timeElapsed s obs)"
  then show "\<not> pollInterval (pollTick s obs)" "\<not> scanning (pollTick s obs)"
    "progress (pollTick s obs) = 100" "message (pollTick s obs) = MsgComplete"
    "onCompleteScheduled (pollTick s obs)" "error (pollTick s obs) = error s"
    using pollTick_time_complete [of s obs] by simp_all
next
  assume "status sd = ''error''"
  then show "hl_error (hl_pollTick h (PollOk sd)) = Some HlScanFailed"
    "\<not> hl_pollInterval (hl_pollTick h (PollOk sd))"
    "hl_onCompleteScheduled (hl_pollTick h (PollOk sd)) = hl_onCompleteScheduled h"
    by (simp_all add: hl_pollTick_def Let_def)
next
  show "hl_error (hl_pollTick h (PollFail m)) = Some (HlLostConnection m)"
    "\<not> hl_pollInterval (hl_pollTick h (PollFail m))"
    "hl_onCompleteScheduled (hl_pollTick h (PollFail m)) = hl_onCompleteScheduled h"
    by (simp_all add: hl_pollTick_def Let_def)
qed

theorem C2_elapsed_time_completes_witness:
  "\<not> faceLost (run running_example [FaceResult True 45900]) (ok_obs 46000 ''error'' None)
   \<and> scanDuration (run running_example [FaceResult True 45900]) * 1000
       \<le> of_int (timeElapsed (run running_example [FaceResult True 45900])
                   (ok_obs 46000 ''error'' None))
   \<and> progress (pollTick (run running_example [FaceResult True 45900])
                  (ok_obs 46000 ''error'' None)) = 100
   \<and> onCompleteScheduled (pollTick (run running_example [FaceResult True 45900])
                  (ok_obs 46000 ''error'' None))
   \<and> error (pollTick (run running_example [FaceResult True 45900])
                  (ok_obs 46000 ''error'' None)) = None
   \<and> hl_error (hl_pollTick hl_running_example
        (PollOk \<lparr>status = ''error'', progress_percent = None, status_message = None\<rparr>))
       = Some HlScanFailed"
proof -
  let ?s = "run running_example [FaceResult True 45900]"
  let ?o = "ok_obs 46000 ''error'' None"
  let ?sd = "\<lparr>status = ''error'', progress_percent = None, status_message = None\<rparr>"
  have h: "\<not> faceLost ?s ?o \<and> scanDuration ?s * 1000 \<le> of_int (timeElapsed ?s ?o)"
    by (simp add: scenario_defs tick_defs)
  have e: "error ?s = None"
    by (simp add: scenario_defs)
  have st: "status ?sd = ''error''"
    by simp
  from C2_elapsed_time_completes [of ?s ?o ?sd hl_running_example] h e st show ?thesis
    by simp
qed

text \<open>
  Claim C2 as stated fails. In the detector-equipped variant a tick 45 s after the start
  whose presence check finds the face missing for 3.2 s restarts instead of completing:
  the session stays polling with progress 0. In the headless variant, whose tick never
  reads the clock, a reported \<open>error\<close> or a failed request ends the session with an
  error however long it has run.
\<close>

theorem C2_every_tick_counterexample:
  "scanDuration (run running_example [FaceResult True 42800]) * 1000
     \<le> of_int (timeElapsed (run running_example [FaceResult True 42800])
                 (ok_obs 46000 ''running'' None))
   \<and> pollInterval (pollTick (run running_example [FaceResult True 42800])
                      (ok_obs 46000 ''running'' None))
   \<and> scanning (pollTick (run running_example [FaceResult True 42800])
                      (ok_obs 46000 ''running'' None))
   \<and> progress (pollTick (run running_example [FaceResult True 42800])
                      (ok_obs 46000 ''running'' None)) = 0
   \<and> \<not> onCompleteScheduled (pollTick (run running_example [FaceResult True 42800])
                      (ok_obs 46000 ''running'' None))
   \<and> hl_error (hl_pollTick hl_running_example
        (PollOk \<lparr>status = ''error'', progress_percent = Some 99, status_message = None\<rparr>))
       = Some HlScanFailed
   \<and> \<not> hl_onCompleteScheduled (hl_pollTick hl_running_example
        (PollOk \<lparr>status = ''error'', progress_percent = Some 99, status_message = None\<rparr>))
   \<and> hl_error (hl_pollTick hl_running_example (PollFail ''Failed to get status''))
       = Some (HlLostConnection ''Failed to get status'')
   \<and> \<not> hl_onCompleteScheduled (hl_pollTick hl_running_example (PollFail ''Failed to get status''))"
  by (simp add: scenario_defs tick_defs hl_defs Let_def)

text \<open>
  Claim C5 (as amended). In the detector-equipped variant, on a tick that reaches the
  status request and is told \<open>error\<close>: before 80% of the configured duration the
  session ends with an error (timer cleared, \<open>scanning\<close> off, no completion); from 80%
  on and before the full duration the report is ignored, the session goes on unchanged
  and any later tick that reaches its request at or after the full duration completes
  it; at or after the full duration the tick itself completes. In the headless variant a
  reported \<open>error\<close> always ends the session with an error.
\<close>

theorem C5_late_error_suppressed:
  assumes "\<not> faceLost s obs" and "poll obs = PollOk sd" and "status sd = ''error''"
    and "0 < scanDuration s"
  shows "(of_int (timeElapsed s obs) < 0.8 * (scanDuration s * 1000) \<longrightarrow>
            error (pollTick s obs) = Some ErrScanIssue
            \<and> \<not> pollInterval (pollTick s obs) \<and> \<not> scanning (pollTick s obs)
            \<and> onCompleteScheduled (pollTick s obs) = onCompleteScheduled s)
       \<and> (0.8 * (scanDuration s * 1000) \<le> of_int (timeElapsed s obs)
          \<and> of_int (timeElapsed s obs) < scanDuration s * 1000 \<longrightarrow>
            error (pollTick s obs) = error s
            \<and> pollInterval (pollTick s obs) = pollInterval s
            \<and> scanning (pollTick s obs) = scanning s
            \<and> onCompleteScheduled (pollTick s obs) = onCompleteScheduled s
            \<and> (\<forall>obs'. \<not> faceLost (pollTick s obs) obs'
                      \<and> scanDuration s * 1000 \<le> of_int (now_elapsed obs' - scanStartTime s)
                  \<longrightarrow> onCompleteScheduled (pollTick (pollTick s obs) obs')
                      \<and> progress (pollTick (pollTick s obs) obs') = 100
                      \<and> error (pollTick (pollTick s obs) obs') = error s))
       \<and> (scanDuration s * 1000 \<le> of_int (timeElapsed s obs) \<longrightarrow>
            error (pollTick s obs) = error s \<and> onCompleteScheduled (pollTick s obs)
            \<and> progress (pollTick s obs) = 100)
       \<and> hl_error (hl_pollTick h (PollOk sd)) = Some HlScanFailed
       \<and> \<not> hl_pollInterval (hl_pollTick h (PollOk sd))
       \<and> \<not> hl_scanning (hl_pollTick h (PollOk sd))"
proof (intro conjI impI allI)
  assume early: "of_int (timeElapsed s obs) < 0.8 * (scanDuration s * 1000)"
  with assms(4) have lt: "of_int (timeElapsed s obs) < scanDuration s * 1000"
    by simp
  have eq: "pollTick s obs =
           s\<lparr> calls := calls s @ [CallGetStatus], consecutiveErrors := 0,
              progress := max (apiProgress sd) (timeBasedProgress (scanDuration s) (timeElapsed s obs)),
              message := scanning_message s
                 (max (apiProgress sd) (timeBasedProgress (scanDuration s) (timeElapsed s obs))),
              pollInterval := False, scanning := False, error := Some ErrScanIssue,
              scanStarted := False \<rparr>"
    using assms(1-3) lt early by (intro pollTick_early_error) simp_all
  show "error (pollTick s obs) = Some ErrScanIssue" "\<not> pollInterval (pollTick s obs)"
    "\<not> scanning (pollTick s obs)"
    "onCompleteScheduled (pollTick s obs) = onCompleteScheduled s"
    by (simp_all add: eq)
next
  assume late: "0.8 * (scanDuration s * 1000) \<le> of_int (timeElapsed s obs)
          \<and> of_int (timeElapsed s obs) < scanDuration s * 1000"
  have eq: "pollTick s obs =
           s\<lparr> calls := calls s @ [CallGetStatus], consecutiveErrors := 0,
              progress := max (apiProgress sd) (timeBasedProgress (scanDuration s) (timeElapsed s obs)),
              message := scanning_message s
                 (max (apiProgress sd) (timeBasedProgress (scanDuration s) (timeElapsed s obs))) \<rparr>"
    using assms(1-3) late by (intro pollTick_ok_continue) simp_all
  show "error (pollTick s obs) = error s" "pollInterval (pollTick s obs) = pollInterval s"
    "scanning (pollTick s obs) = scanning s"
    "onCompleteScheduled (pollTick s obs) = onCompleteScheduled s"
    by (simp_all add: eq)
  fix obs'
  assume o': "\<not> faceLost (pollTick s obs) obs'
              \<and> scanDuration s * 1000 \<le> of_int (now_elapsed obs' - scanStartTime s)"
  have keep: "scanDuration (pollTick s obs) = scanDuration s"
    "scanStartTime (pollTick s obs) = scanStartTime s" "error (pollTick s obs) = error s"
    by (simp_all add: eq)
  from o' keep
  have "scanDuration (pollTick s obs) * 1000 \<le> of_int (timeElapsed (pollTick s obs) obs')"
    by (simp add: timeElapsed_def)
  with o' keep(3) pollTick_time_complete [of "pollTick s obs" obs']
  show "onCompleteScheduled (pollTick (pollTick s obs) obs')"
    "progress (pollTick (pollTick s obs) obs') = 100"
    "error (pollTick (pollTick s obs) obs') = error s"
    by simp_all
next
  assume "scanDuration s * 1000 \<le> of_int (timeElapsed s obs)"
  with assms(1) pollTick_time_complete [of s obs]
  show "error (pollTick s obs) = error s" "onCompleteScheduled (pollTick s obs)"
    "progress (pollTick s obs) = 100"
    by simp_all
next
  from assms(3)
  show "hl_error (hl_pollTick h (PollOk sd)) = Some HlScanFailed"
    "\<not> hl_pollInterval (hl_pollTick h (PollOk sd))"
    "\<not> hl_scanning (hl_pollTick h (PollOk sd))"
    by (simp_all add: hl_pollTick_def Let_def)
qed

theorem C5_late_error_suppressed_witness:
  "\<not> faceLost (run running_example [FaceResult True 44000]) (ok_obs 45500 ''error'' None)
   \<and> 0.8 * (scanDuration (run running_example [FaceResult True 44000]) * 1000)
        \<le> of_int (timeElapsed (run running_example [FaceResult True 44000])
                    (ok_obs 45500 ''error'' None))
   \<and> of_int (timeElapsed (run running_example [FaceResult True 44000])
                    (ok_obs 45500 ''error'' None))
        < scanDuration (run running_example [FaceResult True 44000]) * 1000
   \<and> error (pollTick (run running_example [FaceResult True 44000])
               (ok_obs 45500 ''error'' None)) = None
   \<and> pollInterval (pollTick (run running_example [FaceResult True 44000])
               (ok_obs 45500 ''error'' None))
   \<and> onCompleteScheduled
        (pollTick (pollTick (run running_example [FaceResult True 44000])
                     (ok_obs 45500 ''error'' None)) (ok_obs 46000 ''error'' None))
   \<and> error
        (pollTick (pollTick (run running_example [FaceResult True 44000])
                     (ok_obs 45500 ''error'' None)) (ok_obs 46000 ''error'' None)) = None
   \<and> of_int (timeElapsed (run running_example [FaceResult True 10900])
               (ok_obs 11000 ''error'' None))
        < 0.8 * (scanDuration (run running_example [FaceResult True 10900]) * 1000)
   \<and> error (pollTick (run running_example [FaceResult True 10900])
               (ok_obs 11000 ''error'' None)) = Some ErrScanIssue
   \<and> \<not> pollInterval (pollTick (run running_example [FaceResult True 10900])
               (ok_obs 11000 ''error'' None))
   \<and> scanDuration (run running_example [FaceResult True 45900]) * 1000
        \<le> of_int (timeElapsed (run running_example [FaceResult True 45900])
                    (ok_obs 46000 ''error'' None))
   \<and> onCompleteScheduled (pollTick (run running_example [FaceResult True 45900])
               (ok_obs 46000 ''error'' None))
   \<and> error (pollTick (run running_example [FaceResult True 45900])
               (ok_obs 46000 ''error'' None)) = None"
proof -
  let ?s = "run running_example [FaceResult True 44000]"
  let ?o = "ok_obs 45500 ''error'' None"
  let ?o' = "ok_obs 46000 ''error'' None"
  let ?sd = "\<lparr>status = ''error'', progress_percent = None, status_message = None\<rparr>"
  have h: "\<not> faceLost ?s ?o" "poll ?o = PollOk ?sd" "status ?sd = ''error''"
    "0 < scanDuration ?s"
    by (simp_all add: scenario_defs tick_defs)
  have late: "0.8 * (scanDuration ?s * 1000) \<le> of_int (timeElapsed ?s ?o)"
    "of_int (timeElapsed ?s ?o) < scanDuration ?s * 1000"
    by (simp_all add: scenario_defs tick_defs)
  have s: "error ?s = None" "pollInterval ?s" "scanStartTime ?s = 1000" "scanDuration ?s = 45"
    by (simp_all add: scenario_defs)
  have o': "\<not> faceLost (pollTick ?s ?o) ?o'"
    "scanDuration ?s * 1000 \<le> of_int (now_elapsed ?o' - scanStartTime ?s)"
    by (simp_all add: scenario_defs tick_defs Let_def)
  note main = C5_late_error_suppressed [OF h, of hl_initial_state]
  from main late s(1,2)
  have a: "error (pollTick ?s ?o) = None" "pollInterval (pollTick ?s ?o)"
    by simp_all
  from main late o' s(1)
  have b: "onCompleteScheduled (pollTick (pollTick ?s ?o) ?o')"
    "error (pollTick (pollTick ?s ?o) ?o') = None"
    by metis+
  let ?r = "run running_example [FaceResult True 10900]"
  let ?e = "ok_obs 11000 ''error'' None"
  have h2: "\<not> faceLost ?r ?e" "poll ?e = PollOk ?sd" "status ?sd = ''error''"
    "0 < scanDuration ?r"
    by (simp_all add: scenario_defs tick_defs)
  have early: "of_int (timeElapsed ?r ?e) < 0.8 * (scanDuration ?r * 1000)"
    by (simp add: scenario_defs tick_defs)
  from C5_late_error_suppressed [OF h2, of hl_initial_state] early
  have c: "error (pollTick ?r ?e) = Some ErrScanIssue"
    "\<not> pollInterval (pollTick ?r ?e)"
    by simp_all
  let ?q = "run running_example [FaceResult True 45900]"
  let ?f = "ok_obs 46000 ''error'' None"
  have h3: "\<not> faceLost ?q ?f" "poll ?f = PollOk ?sd" "status ?sd = ''error''"
    "0 < scanDuration ?q"
    by (simp_all add: scenario_defs tick_defs)
  have full: "scanDuration ?q * 1000 \<le> of_int (timeElapsed ?q ?f)"
    by (simp add: scenario_defs tick_defs)
  have q: "error ?q = None"
    by (simp add: scenario_defs)
  from C5_late_error_suppressed [OF h3, of hl_initial_state] full q
  have d: "onCompleteScheduled (pollTick ?q ?f)" "error (pollTick ?q ?f) = None"
    by simp_all
  from h late a b early c full d show ?thesis
    by blast
qed

text \<open>
  Claim C5 as stated fails in the headless variant: a session whose server progress has
  reached 90 is ended with \<open>Scan failed\<close> by a reported \<open>error\<close>; the headless tick
  has no 80% rule.
\<close>

theorem C5_headless_late_error_counterexample:
  "hl_progress (hl_pollTick hl_running_example
      (PollOk \<lparr>status = ''running'', progress_percent = Some 90, status_message = None\<rparr>)) = 90
   \<and> hl_pollInterval (hl_pollTick hl_running_example
      (PollOk \<lparr>status = ''running'', progress_percent = Some 90, status_message = None\<rparr>))
   \<and> hl_error (hl_pollTick (hl_pollTick hl_running_example
        (PollOk \<lparr>status = ''running'', progress_percent = Some 90, status_message = None\<rparr>))
        (PollOk \<lparr>status = ''error'', progress_percent = Some 90, status_message = None\<rparr>))
      = Some HlScanFailed
   \<and> \<not> hl_pollInterval (hl_pollTick (hl_pollTick hl_running_example
        (PollOk \<lparr>status = ''running'', progress_percent = Some 90, status_message = None\<rparr>))
        (PollOk \<lparr>status = ''error'', progress_percent = Some 90, status_message = None\<rparr>))
   \<and> \<not> hl_scanning (hl_pollTick (hl_pollTick hl_running_example
        (PollOk \<lparr>status = ''running'', progress_percent = Some 90, status_message = None\<rparr>))
        (PollOk \<lparr>status = ''error'', progress_percent = Some 90, status_message = None\<rparr>))
   \<and> \<not> hl_onCompleteScheduled (hl_pollTick (hl_pollTick hl_running_example
        (PollOk \<lparr>status = ''running'', progress_percent = Some 90, status_message = None\<rparr>))
        (PollOk \<lparr>status = ''error'', progress_percent = Some 90, status_message = None\<rparr>))"
  by (simp add: hl_defs Let_def)

text \<open>
  Claim C6 (as amended). In the detector-equipped variant a failed status request never
  sets the error; while the failure rule does not fire (not both more than five
  consecutive failures and time-based progress above 50) and the configured duration has
  not elapsed, the tick leaves the timer and \<open>scanning\<close> as they were, does not
  complete, displays the time-based progress and counts the failure. In the headless
  variant a failed status request ends the session with \<open>Lost connection to backend\<close>.
\<close>

theorem C6_poll_failure_absorbed:
  "(\<not> faceLost s obs \<and> poll obs = PollFail m \<longrightarrow> error (pollTick s obs) = error s)
   \<and> (\<not> faceLost s obs \<and> poll obs = PollFail m
       \<and> \<not> (consecutiveErrors s + 1 > 5
            \<and> timeBasedProgress (scanDuration s) (timeElapsed s obs) > 50)
       \<and> of_int (timeElapsed s obs) < scanDuration s * 1000 \<longrightarrow>
         pollInterval (pollTick s obs) = pollInterval s
         \<and> scanning (pollTick s obs) = scanning s
         \<and> onCompleteScheduled (pollTick s obs) = onCompleteScheduled s
         \<and> progress (pollTick s obs) = timeBasedProgress (scanDuration s) (timeElapsed s obs)
         \<and> consecutiveErrors (pollTick s obs) = consecutiveErrors s + 1)
   \<and> hl_error (hl_pollTick h (PollFail m)) = Some (HlLostConnection m)
   \<and> \<not> hl_pollInterval (hl_pollTick h (PollFail m))
   \<and> \<not> hl_scanning (hl_pollTick h (PollFail m))"
proof (intro conjI impI)
  assume "\<not> faceLost s obs \<and> poll obs = PollFail m"
  then show "error (pollTick s obs) = error s"
    by (simp add: pollTick_def pollRequest_def pollResponse_def Let_def complete_scan_def)
next
  assume a: "\<not> faceLost s obs \<and> poll obs = PollFail m
       \<and> \<not> (consecutiveErrors s + 1 > 5
            \<and> timeBasedProgress (scanDuration s) (timeElapsed s obs) > 50)
       \<and> of_int (timeElapsed s obs) < scanDuration s * 1000"
  then have "is_fail (poll obs)"
    by (simp add: is_fail_def)
  with a have eq: "pollTick s obs =
           s\<lparr> calls := calls s @ [CallGetStatus],
              consecutiveErrors := consecutiveErrors s + 1,
              progress := timeBasedProgress (scanDuration s) (timeElapsed s obs),
              message := scanning_message s (timeBasedProgress (scanDuration s) (timeElapsed s obs)) \<rparr>"
    by (intro pollTick_fail_continue) simp_all
  show "pollInterval (pollTick s obs) = pollInterval s"
    "scanning (pollTick s obs) = scanning s"
    "onCompleteScheduled (pollTick s obs) = onCompleteScheduled s"
    "progress (pollTick s obs) = timeBasedProgress (scanDuration s) (timeElapsed s obs)"
    "consecutiveErrors (pollTick s obs) = consecutiveErrors s + 1"
    by (simp_all add: eq)
next
  show "hl_error (hl_pollTick h (PollFail m)) = Some (HlLostConnection m)"
    "\<not> hl_pollInterval (hl_pollTick h (PollFail m))"
    "\<not> hl_scanning (hl_pollTick h (PollFail m))"
    by (simp_all add: hl_pollTick_def Let_def)
qed

theorem C6_poll_failure_absorbed_witness:
  "\<not> faceLost midway_example (failing_obs 31000)
   \<and> poll (failing_obs 31000) = PollFail ''Failed to get status''
   \<and> \<not> (consecutiveErrors midway_example + 1 > 5
        \<and> timeBasedProgress (scanDuration midway_example)
             (timeElapsed midway_example (failing_obs 31000)) > 50)
   \<and> of_int (timeElapsed midway_example (failing_obs 31000)) < scanDuration midway_example * 1000
   \<and> error (pollTick midway_example (failing_obs 31000)) = None
   \<and> pollInterval (pollTick midway_example (failing_obs 31000))
   \<and> scanning (pollTick midway_example (failing_obs 31000))
   \<and> progress (pollTick midway_example (failing_obs 31000)) = 200 / 3
   \<and> consecutiveErrors (pollTick midway_example (failing_obs 31000)) = 1"
proof -
  have h: "\<not> faceLost midway_example (failing_obs 31000)
      \<and> poll (failing_obs 31000) = PollFail ''Failed to get status''"
    by (simp add: scenario_defs tick_defs Let_def)
  have b: "\<not> (consecutiveErrors midway_example + 1 > 5
        \<and> timeBasedProgress (scanDuration midway_example)
             (timeElapsed midway_example (failing_obs 31000)) > 50)"
    "of_int (timeElapsed midway_example (failing_obs 31000)) < scanDuration midway_example * 1000"
    by (simp_all add: scenario_defs tick_defs Let_def)
  have s: "error midway_example = None" "pollInterval midway_example" "scanning midway_example"
    "consecutiveErrors midway_example = 0"
    "timeBasedProgress (scanDuration midway_example)
       (timeElapsed midway_example (failing_obs 31000)) = 200 / 3"
    by (simp_all add: scenario_defs tick_defs Let_def)
  from C6_poll_failure_absorbed [of midway_example "failing_obs 31000" "''Failed to get status''"
         hl_initial_state] h b s
  show ?thesis
    by simp
qed

text \<open>
  Claim C6 as stated fails in the headless variant: the first failed status request of a
  polling session sets the error and clears the timer.
\<close>

theorem C6_headless_poll_failure_counterexample:
  "hl_pollInterval hl_running_example \<and> hl_error hl_running_example = None
   \<and> hl_error (hl_pollTick hl_running_example (PollFail ''Failed to get status''))
       = Some (HlLostConnection ''Failed to get status'')
   \<and> \<not> hl_pollInterval (hl_pollTick hl_running_example (PollFail ''Failed to get status''))
   \<and> \<not> hl_scanning (hl_pollTick hl_running_example (PollFail ''Failed to get status''))"
  by (simp add: hl_defs Let_def)

subsection \<open>Displayed progress\<close>

lemma timeBasedProgress_mono:
  assumes "0 < d" and "e1 \<le> e2"
  shows "timeBasedProgress d e1 \<le> timeBasedProgress d e2"
proof -
  from assms(2) have "(of_int e1 :: rat) \<le> of_int e2"
    by simp
  with assms(1) have "(of_int e1 :: rat) / (d * 1000) \<le> of_int e2 / (d * 1000)"
    by (simp add: divide_right_mono)
  then have "(of_int e1 :: rat) / (d * 1000) * 100 \<le> of_int e2 / (d * 1000) * 100"
    by simp
  then show ?thesis
    unfolding timeBasedProgress_def by (rule min.mono) simp
qed

lemma pollTick_progress_lower_bound:
  assumes "\<not> faceLost s obs"
  shows "timeBasedProgress (scanDuration s) (timeElapsed s obs) \<le> progress (pollTick s obs)"
proof -
  have "timeBasedProgress (scanDuration s) (timeElapsed s obs) \<le> 100"
    using timeBasedProgress_le_99 [of "scanDuration s" "timeElapsed s obs"] by simp
  with assms show ?thesis
    by (cases "poll obs")
       (simp_all add: pollTick_def pollRequest_def pollResponse_def Let_def complete_scan_def)
qed

text \<open>
  Claim C4 (as amended). In the detector-equipped variant, on a tick that reaches the
  status request: if the request succeeds before the configured duration with a status
  other than \<open>complete\<close>, displayed progress is
  \<open>max (apiProgress, timeBasedProgress)\<close>, an absent server progress counting as 0; if
  the request fails and the tick does not complete, it is the time-based progress; a tick
  that completes the scan displays 100. In every case displayed progress is at least the
  time-based progress of that tick, which does not decrease as time passes. Nothing
  compares it with the value displayed before. In the headless variant displayed
  progress is the server progress alone, and a failed request leaves it as it was.
\<close>

theorem C4_displayed_progress:
  "(\<not> faceLost s obs \<and> poll obs = PollOk sd
      \<and> of_int (timeElapsed s obs) < scanDuration s * 1000 \<and> status sd \<noteq> ''complete'' \<longrightarrow>
        progress (pollTick s obs)
          = max (apiProgress sd) (timeBasedProgress (scanDuration s) (timeElapsed s obs)))
   \<and> (progress_percent sd = None \<longrightarrow> apiProgress sd = 0)
   \<and> (\<not> faceLost s obs \<and> poll obs = PollFail m
      \<and> of_int (timeElapsed s obs) < scanDuration s * 1000
      \<and> \<not> (consecutiveErrors s + 1 > 5
           \<and> timeBasedProgress (scanDuration s) (timeElapsed s obs) > 50) \<longrightarrow>
        progress (pollTick s obs) = timeBasedProgress (scanDuration s) (timeElapsed s obs))
   \<and> (\<not> faceLost s obs \<and> onCompleteScheduled (pollTick s obs) \<and> \<not> onCompleteScheduled s \<longrightarrow>
        progress (pollTick s obs) = 100)
   \<and> (\<not> faceLost s obs \<longrightarrow>
        timeBasedProgress (scanDuration s) (timeElapsed s obs) \<le> progress (pollTick s obs))
   \<and> (0 < scanDuration s \<and> e1 \<le> e2 \<longrightarrow>
        timeBasedProgress (scanDuration s) e1 \<le> timeBasedProgress (scanDuration s) e2)
   \<and> hl_progress (hl_pollTick h (PollOk sd)) = apiProgress sd
   \<and> hl_progress (hl_pollTick h (PollFail m)) = hl_progress h"
proof (intro conjI impI)
  assume "\<not> faceLost s obs \<and> poll obs = PollOk sd
      \<and> of_int (timeElapsed s obs) < scanDuration s * 1000 \<and> status sd \<noteq> ''complete''"
  then show "progress (pollTick s obs)
          = max (apiProgress sd) (timeBasedProgress (scanDuration s) (timeElapsed s obs))"
    by (simp add: pollTick_def pollRequest_def pollResponse_def Let_def)
next
  assume "progress_percent sd = None"
  then show "apiProgress sd = 0"
    by (simp add: apiProgress_def)
next
  assume "\<not> faceLost s obs \<and> poll obs = PollFail m
      \<and> of_int (timeElapsed s obs) < scanDuration s * 1000
      \<and> \<not> (consecutiveErrors s + 1 > 5
           \<and> timeBasedProgress (scanDuration s) (timeElapsed s obs) > 50)"
  then show "progress (pollTick s obs) = timeBasedProgress (scanDuration s) (timeElapsed s obs)"
    by (auto simp add: pollTick_def pollRequest_def pollResponse_def Let_def)
next
  assume "\<not> faceLost s obs \<and> onCompleteScheduled (pollTick s obs) \<and> \<not> onCompleteScheduled s"
  then show "progress (pollTick s obs) = 100"
    by (cases "poll obs")
       (auto simp add: pollTick_def pollRequest_def pollResponse_def Let_def complete_scan_def
          split: if_splits)
next
  assume "\<not> faceLost s obs"
  then show "timeBasedProgress (scanDuration s) (timeElapsed s obs) \<le> progress (pollTick s obs)"
    by (rule pollTick_progress_lower_bound)
next
  assume "0 < scanDuration s \<and> e1 \<le> e2"
  then show "timeBasedProgress (scanDuration s) e1 \<le> timeBasedProgress (scanDuration s) e2"
    by (simp add: timeBasedProgress_mono)
next
  show "hl_progress (hl_pollTick h (PollOk sd)) = apiProgress sd"
    by (simp add: hl_pollTick_def Let_def)
  show "hl_progress (hl_pollTick h (PollFail m)) = hl_progress h"
    by (simp add: hl_pollTick_def Let_def)
qed

theorem C4_displayed_progress_witness:
  "\<not> faceLost (run running_example [FaceResult True 5400]) (ok_obs 5500 ''running'' None)
   \<and> of_int (timeElapsed (run running_example [FaceResult True 5400])
               (ok_obs 5500 ''running'' None))
        < scanDuration (run running_example [FaceResult True 5400]) * 1000
   \<and> progress (pollTick (run running_example [FaceResult True 5400])
                  (ok_obs 5500 ''running'' None)) = 10
   \<and> timeBasedProgress (scanDuration (run running_example [FaceResult True 5400])) 4500
        \<le> timeBasedProgress (scanDuration (run running_example [FaceResult True 5400])) 5000
   \<and> \<not> faceLost midway_example (failing_obs 31000)
   \<and> of_int (timeElapsed midway_example (failing_obs 31000)) < scanDuration midway_example * 1000
   \<and> progress (pollTick midway_example (failing_obs 31000)) = 200 / 3
   \<and> \<not> faceLost (run running_example [FaceResult True 45900]) (ok_obs 46000 ''running'' None)
   \<and> onCompleteScheduled (pollTick (run running_example [FaceResult True 45900])
                             (ok_obs 46000 ''running'' None))
   \<and> progress (pollTick (run running_example [FaceResult True 45900])
                  (ok_obs 46000 ''running'' None)) = 100"
proof -
  let ?sd = "\<lparr>status = ''running'', progress_percent = None, status_message = None\<rparr>"
  let ?m = "''Failed to get status''"
  let ?a = "run running_example [FaceResult True 5400]"
  let ?oa = "ok_obs 5500 ''running'' None"
  have ha: "\<not> faceLost ?a ?oa \<and> poll ?oa = PollOk ?sd
      \<and> of_int (timeElapsed ?a ?oa) < scanDuration ?a * 1000 \<and> status ?sd \<noteq> ''complete''"
    "progress_percent ?sd = None" "0 < scanDuration ?a \<and> (4500::int) \<le> 5000"
    by (simp_all add: scenario_defs tick_defs)
  have ta: "timeBasedProgress (scanDuration ?a) (timeElapsed ?a ?oa) = 10"
    by (simp add: scenario_defs tick_defs)
  note A = C4_displayed_progress [of ?a ?oa ?sd ?m 4500 5000 hl_initial_state]
  from A ha ta have a: "progress (pollTick ?a ?oa) = 10"
    "timeBasedProgress (scanDuration ?a) 4500 \<le> timeBasedProgress (scanDuration ?a) 5000"
    by simp_all
  let ?ob = "failing_obs 31000"
  have hb: "\<not> faceLost midway_example ?ob \<and> poll ?ob = PollFail ?m
      \<and> of_int (timeElapsed midway_example ?ob) < scanDuration midway_example * 1000
      \<and> \<not> (consecutiveErrors midway_example + 1 > 5
           \<and> timeBasedProgress (scanDuration midway_example) (timeElapsed midway_example ?ob) > 50)"
    by (simp add: scenario_defs tick_defs Let_def)
  have tb: "timeBasedProgress (scanDuration midway_example) (timeElapsed midway_example ?ob) = 200 / 3"
    by (simp add: scenario_defs tick_defs Let_def)
  from C4_displayed_progress [of midway_example ?ob ?sd ?m 0 0 hl_initial_state] hb tb
  have b: "progress (pollTick midway_example ?ob) = 200 / 3"
    by simp
  let ?c = "run running_example [FaceResult True 45900]"
  let ?oc = "ok_obs 46000 ''running'' None"
  have hc: "\<not> faceLost ?c ?oc \<and> onCompleteScheduled (pollTick ?c ?oc) \<and> \<not> onCompleteScheduled ?c"
    by (simp add: scenario_defs tick_defs Let_def)
  from C4_displayed_progress [of ?c ?oc ?sd ?m 0 0 hl_initial_state] hc
  have c: "progress (pollTick ?c ?oc) = 100"
    by simp
  from ha hb hc a b c show ?thesis
    by simp
qed

text \<open>
  Claim C4 as stated fails: within one session without restart, displayed progress drops
  from 80 to 11.1 when the next status request fails, and from 80 to 20 when the server
  next reports 20. In the headless variant the time-based progress plays no part: after
  a report of 80, a report without progress displays 0.
\<close>

theorem C4_progress_decreases_counterexample:
  "progress (run running_example
      [FaceResult True 5400, Tick (ok_obs 5500 ''running'' (Some 80))]) = 80
   \<and> pollInterval (run running_example
      [FaceResult True 5400, Tick (ok_obs 5500 ''running'' (Some 80))])
   \<and> progress (run running_example
      [FaceResult True 5400, Tick (ok_obs 5500 ''running'' (Some 80)),
       FaceResult True 5900, Tick (failing_obs 6000)]) = 100 / 9
   \<and> progress (run running_example
      [FaceResult True 5400, Tick (ok_obs 5500 ''running'' (Some 80)),
       FaceResult True 5900, Tick (ok_obs 6000 ''running'' (Some 20))]) = 20
   \<and> calls (run running_example
      [FaceResult True 5400, Tick (ok_obs 5500 ''running'' (Some 80)),
       FaceResult True 5900, Tick (failing_obs 6000)])
      = [CallStartScan ''pos'' 45, CallGetStatus, CallGetStatus]
   \<and> hl_progress (hl_pollTick (hl_pollTick hl_running_example
        (PollOk \<lparr>status = ''running'', progress_percent = Some 80, status_message = None\<rparr>))
        (PollOk \<lparr>status = ''running'', progress_percent = None, status_message = None\<rparr>)) = 0"
  by (simp add: scenario_defs tick_defs hl_defs Let_def)

subsection \<open>Time-based progress\<close>

text \<open>
  Claim C8. For every elapsed time and every positive duration, time-based progress is
  \<open>min (elapsed / (duration * 1000) * 100) 99\<close>; it is at most 99, hence below 100, for
  every elapsed time. A tick whose status request fails, and which therefore displays
  time-based progress alone, shows 100 only when it declares the scan complete.
\<close>

theorem C8_timeBasedProgress_below_100:
  assumes "0 < d"
  shows "timeBasedProgress d e = min (of_int e / (d * 1000) * 100) 99
       \<and> timeBasedProgress d e \<le> 99 \<and> timeBasedProgress d e < 100
       \<and> (\<not> faceLost s obs \<and> poll obs = PollFail m \<and> progress (pollTick s obs) = 100 \<longrightarrow>
            onCompleteScheduled (pollTick s obs) \<and> \<not> pollInterval (pollTick s obs))"
proof (intro conjI impI)
  show "timeBasedProgress d e = min (of_int e / (d * 1000) * 100) 99"
    by (simp add: timeBasedProgress_def)
  show le: "timeBasedProgress d e \<le> 99"
    by (rule timeBasedProgress_le_99)
  from le show "timeBasedProgress d e < 100"
    by simp
next
  assume a: "\<not> faceLost s obs \<and> poll obs = PollFail m \<and> progress (pollTick s obs) = 100"
  have "timeBasedProgress (scanDuration s) (timeElapsed s obs) \<noteq> 100"
    using timeBasedProgress_le_99 [of "scanDuration s" "timeElapsed s obs"] by simp
  with a show "onCompleteScheduled (pollTick s obs)" "\<not> pollInterval (pollTick s obs)"
    by (auto simp add: pollTick_def pollRequest_def pollResponse_def Let_def complete_scan_def
          split: if_splits)
qed

theorem C8_timeBasedProgress_below_100_witness:
  "(0::rat) < 45
   \<and> timeBasedProgress 45 22500 = 50 \<and> timeBasedProgress 45 45000 = 99
   \<and> timeBasedProgress 45 3600000 = 99 \<and> timeBasedProgress 45 3600000 < 100
   \<and> \<not> faceLost (run running_example [FaceResult True 45900]) (failing_obs 46000)
   \<and> progress (pollTick (run running_example [FaceResult True 45900]) (failing_obs 46000)) = 100
   \<and> onCompleteScheduled (pollTick (run running_example [FaceResult True 45900]) (failing_obs 46000))"
proof -
  let ?c = "run running_example [FaceResult True 45900]"
  let ?o = "failing_obs 46000"
  have d: "(0::rat) < 45"
    by simp
  have h: "\<not> faceLost ?c ?o \<and> poll ?o = PollFail ''Failed to get status''
         \<and> progress (pollTick ?c ?o) = 100"
    by (simp add: scenario_defs tick_defs Let_def)
  have v: "min (of_int 22500 / (45 * 1000) * 100) (99::rat) = 50"
    "min (of_int 45000 / (45 * 1000) * 100) (99::rat) = 99"
    "min (of_int 3600000 / (45 * 1000) * 100) (99::rat) = 99"
    by simp_all
  from C8_timeBasedProgress_below_100 [OF d, of 3600000 ?c ?o "''Failed to get status''"]
    C8_timeBasedProgress_below_100 [OF d, of 22500 ?c ?o "''Failed to get status''"]
    C8_timeBasedProgress_below_100 [OF d, of 45000 ?c ?o "''Failed to get status''"] h v
  show ?thesis
    by simp
qed

subsection \<open>Presence before the first face\<close>

lemma run_no_face_frames:
  assumes "\<not> faceDetected s"
  shows "run s (no_face_frames ts) = s"
  using assms
proof (induction ts arbitrary: s)
  case Nil
  then show ?case by (simp add: no_face_frames_def)
next
  case (Cons t ts)
  from Cons.prems have "onFaceResults s False t = s"
    by (simp add: onFaceResults_def)
  with Cons show ?case
    by (simp add: no_face_frames_def)
qed

text \<open>
  Claim C7 (as amended). While no frame has shown a face, \<open>lastFaceSeenRef\<close> keeps the
  time at which the component was mounted, so the time since the last face is the finite
  time since mount and exceeds the 3000 ms threshold exactly when more than 3000 ms have
  passed since mount. In that situation \<open>faceDetected\<close> is false, and \<open>startScan\<close>
  issues no request and starts no timer: no session polls before a face has been seen.
\<close>

theorem C7_time_since_face_counts_from_mount:
  "lastFaceSeen (run (initial_state t0) (no_face_frames ts)) = t0
   \<and> timeSinceFace (run (initial_state t0) (no_face_frames ts)) now = now - t0
   \<and> (3000 < timeSinceFace (run (initial_state t0) (no_face_frames ts)) now) = (t0 + 3000 < now)
   \<and> \<not> faceDetected (run (initial_state t0) (no_face_frames ts))
   \<and> calls (startScan (run (initial_state t0) (no_face_frames ts)) now ok) = []
   \<and> \<not> pollInterval (startScan (run (initial_state t0) (no_face_frames ts)) now ok)
   \<and> \<not> scanning (startScan (run (initial_state t0) (no_face_frames ts)) now ok)
   \<and> \<not> scanStarted (startScan (run (initial_state t0) (no_face_frames ts)) now ok)"
proof -
  have "\<not> faceDetected (initial_state t0)"
    by (simp add: initial_state_def)
  then have "run (initial_state t0) (no_face_frames ts) = initial_state t0"
    by (rule run_no_face_frames)
  then show ?thesis
    by (auto simp add: initial_state_def timeSinceFace_def startScan_def)
qed

text \<open>
  Claim C7 as stated fails: 500 ms after mounting, with three frames processed and no face
  in any of them, the time since the last face is 500 ms, not an effectively infinite
  duration, and the face-lost condition of a tick at that moment is false.
\<close>

theorem C7_never_seen_counterexample:
  "\<not> faceDetected (run (initial_state 1000) (no_face_frames [1100, 1200, 1300]))
   \<and> lastFaceSeen (run (initial_state 1000) (no_face_frames [1100, 1200, 1300])) = 1000
   \<and> timeSinceFace (run (initial_state 1000) (no_face_frames [1100, 1200, 1300])) 1500 = 500
   \<and> \<not> 3000 < timeSinceFace (run (initial_state 1000) (no_face_frames [1100, 1200, 1300])) 1500
   \<and> \<not> faceLost (run (initial_state 1000) (no_face_frames [1100, 1200, 1300]))
            (ok_obs 1500 ''running'' None)"
  by (simp add: no_face_frames_def scenario_defs tick_defs)

subsection \<open>Teardown\<close>

lemmas unmount_defs = unmount_def cleanup_def settle_def keepState_def
  pollResponse_arrives_def startResponse_arrives_def

lemma keepState_fields:
  "scanning (keepState s s') = scanning s" "progress (keepState s s') = progress s"
  "message (keepState s s') = message s" "error (keepState s s') = error s"
  "faceDetected (keepState s s') = faceDetected s"
  "pollInterval (keepState s s') = pollInterval s'"
  "onCompleteScheduled (keepState s s') = onCompleteScheduled s'"
  "consecutiveErrors (keepState s s') = consecutiveErrors s'"
  "scanStarted (keepState s s') = scanStarted s'" "calls (keepState s s') = calls s'"
  by (simp_all add: keepState_def)

lemma pollResponse_onComplete_mounted_irrelevant:
  "onCompleteScheduled (pollResponse (unmount s) e r) = onCompleteScheduled (pollResponse s e r)"
  by (cases r) (simp_all add: unmount_def cleanup_def pollResponse_def Let_def complete_scan_def)

text \<open>
  Claim C9 (as amended). Teardown is the unmounting of the component, which runs
  \<open>cleanup\<close>. It clears the poll timer, so that no further tick runs, issues no request
  and changes none of \<open>scanning\<close>, \<open>progress\<close>, \<open>message\<close>, \<open>error\<close>. A response that
  arrives afterwards changes none of these four fields either. It is not discarded,
  though: the continuation of a status request still decides completion as on a mounted
  component and then schedules \<open>onComplete\<close>, and the continuation of a successful start
  request installs the poll timer.
\<close>

theorem C9_unmount_keeps_state_not_effects:
  "\<not> pollInterval (unmount s) \<and> \<not> mounted (unmount s)
   \<and> scanning (unmount s) = scanning s \<and> progress (unmount s) = progress s
   \<and> message (unmount s) = message s \<and> error (unmount s) = error s
   \<and> onCompleteScheduled (unmount s) = onCompleteScheduled s
   \<and> calls (unmount s) = calls s
   \<and> step (unmount s) (Tick obs) = unmount s
   \<and> scanning (pollResponse_arrives (unmount s) e r) = scanning s
   \<and> progress (pollResponse_arrives (unmount s) e r) = progress s
   \<and> message (pollResponse_arrives (unmount s) e r) = message s
   \<and> error (pollResponse_arrives (unmount s) e r) = error s
   \<and> onCompleteScheduled (pollResponse_arrives (unmount s) e r)
       = onCompleteScheduled (pollResponse s e r)
   \<and> scanning (startResponse_arrives (unmount s) ok) = scanning s
   \<and> progress (startResponse_arrives (unmount s) ok) = progress s
   \<and> message (startResponse_arrives (unmount s) ok) = message s
   \<and> error (startResponse_arrives (unmount s) ok) = error s
   \<and> pollInterval (startResponse_arrives (unmount s) True)"
proof -
  have a: "\<not> pollInterval (unmount s)" "\<not> mounted (unmount s)"
    "scanning (unmount s) = scanning s" "progress (unmount s) = progress s"
    "message (unmount s) = message s" "error (unmount s) = error s"
    "onCompleteScheduled (unmount s) = onCompleteScheduled s" "calls (unmount s) = calls s"
    by (simp_all add: unmount_def cleanup_def)
  from a(1) have b: "step (unmount s) (Tick obs) = unmount s"
    by simp
  have p: "pollResponse_arrives (unmount s) e r
             = keepState (unmount s) (pollResponse (unmount s) e r)"
    using a(2) by (simp add: pollResponse_arrives_def settle_def)
  have c: "scanning (pollResponse_arrives (unmount s) e r) = scanning s"
    "progress (pollResponse_arrives (unmount s) e r) = progress s"
    "message (pollResponse_arrives (unmount s) e r) = message s"
    "error (pollResponse_arrives (unmount s) e r) = error s"
    by (simp_all add: p keepState_fields a)
  have d: "onCompleteScheduled (pollResponse_arrives (unmount s) e r)
             = onCompleteScheduled (pollResponse s e r)"
    by (simp add: p keepState_fields pollResponse_onComplete_mounted_irrelevant)
  have q: "startResponse_arrives (unmount s) k
             = keepState (unmount s) (startScan_resume (unmount s) k)" for k
    using a(2) by (simp add: startResponse_arrives_def settle_def)
  have f: "scanning (startResponse_arrives (unmount s) ok) = scanning s"
    "progress (startResponse_arrives (unmount s) ok) = progress s"
    "message (startResponse_arrives (unmount s) ok) = message s"
    "error (startResponse_arrives (unmount s) ok) = error s"
    by (simp_all add: q keepState_fields a)
  have g: "pollInterval (startResponse_arrives (unmount s) True)"
    by (simp add: q keepState_fields startScan_resume_def)
  from a b c d f g show ?thesis
    by simp
qed

text \<open>
  Claim C9 as stated fails. Two status requests overlap: the tick at 5500 ms sends one
  (elapsed time 4500 ms) whose response is delayed, the tick at 6000 ms is told
  \<open>error\<close> and ends the session. After Retry the component is idle (not scanning, no
  error, no timer, nothing scheduled) and shows the Back button; Back unmounts it. The
  delayed response, status \<open>complete\<close>, then arrives: progress, message and error stay
  as they were, but the response is not discarded, since its continuation schedules
  \<open>onComplete\<close>, which takes the application to the results step.
\<close>

theorem C9_late_response_counterexample:
  "\<not> faceLost (run running_example [FaceResult True 5400]) (ok_obs 5500 ''complete'' None)
   \<and> timeElapsed (run running_example [FaceResult True 5400])
        (ok_obs 5500 ''complete'' None) = 4500
   \<and> mounted retried_example \<and> \<not> scanning retried_example \<and> error retried_example = None
   \<and> \<not> pollInterval retried_example \<and> \<not> onCompleteScheduled retried_example
   \<and> progress retried_example = 0
   \<and> calls retried_example
       = [CallStartScan ''pos'' 45, CallGetStatus, CallGetStatus, CallReset]
   \<and> \<not> mounted (unmount retried_example)
   \<and> \<not> onCompleteScheduled (unmount retried_example)
   \<and> onCompleteScheduled (pollResponse_arrives (unmount retried_example) 4500
        (PollOk \<lparr>status = ''complete'', progress_percent = Some 100, status_message = None\<rparr>))
   \<and> progress (pollResponse_arrives (unmount retried_example) 4500
        (PollOk \<lparr>status = ''complete'', progress_percent = Some 100, status_message = None\<rparr>)) = 0
   \<and> message (pollResponse_arrives (unmount retried_example) 4500
        (PollOk \<lparr>status = ''complete'', progress_percent = Some 100, status_message = None\<rparr>))
       = MsgReadyToScan
   \<and> error (pollResponse_arrives (unmount retried_example) 4500
        (PollOk \<lparr>status = ''complete'', progress_percent = Some 100, status_message = None\<rparr>))
       = None"
  by (simp add: retried_example_def handleRetry_def unmount_defs scenario_defs tick_defs Let_def)

subsection \<open>Restart after face loss\<close>

lemma faceLostRestart_fields:
  "progress (faceLostRestart s obs) = 0"
  "message (faceLostRestart s obs) = MsgFaceLost"
  "lastFaceSeen (faceLostRestart s obs) = now_restart obs"
  "pollInterval (faceLostRestart s obs) = pollInterval s"
  "scanning (faceLostRestart s obs) = scanning s"
  "error (faceLostRestart s obs) = error s"
  "onCompleteScheduled (faceLostRestart s obs) = onCompleteScheduled s"
  "scanStartTime (faceLostRestart s obs) = scanStartTime s"
  "calls (faceLostRestart s obs) =
     calls s @ (if reset_ok obs then [CallReset, CallStartScan ''pos'' (scanDuration s)]
                else [CallReset])"
  by (simp_all add: faceLostRestart_def Let_def)

lemma pollTick_scanStartTime: "scanStartTime (pollTick s obs) = scanStartTime s"
  by (cases "poll obs")
     (simp_all add: pollTick_def pollRequest_def pollResponse_def Let_def complete_scan_def
        faceLostRestart_fields)

text \<open>
  Claim C3, evaluated on the code. No tick changes \<open>scanStartTime\<close>, the face-lost
  restart included. Scenario: scan started at 1000 ms, face last seen at 10900 ms, tick at
  14100 ms (face missing for 3.2 s). The tick resets progress to 0, issues a reset and a
  new start, keeps polling and sets no error, but \<open>scanStartTime\<close> is still 1000; the
  next tick, 500 ms later, displays 30.2 (13.6 s of 45 s) and the scan completes at
  46000 ms, 45 s after the first start and 31.9 s after the restart. With a failing reset
  the same tick issues no new start.
\<close>

theorem C3_restart_keeps_start_time:
  "scanStartTime (pollTick s obs) = scanStartTime s
   \<and> faceLost (run running_example [FaceResult True 10900]) (ok_obs 14100 ''running'' None)
   \<and> progress (run running_example
        [FaceResult True 10900, Tick (ok_obs 14100 ''running'' None)]) = 0
   \<and> pollInterval (run running_example
        [FaceResult True 10900, Tick (ok_obs 14100 ''running'' None)])
   \<and> error (run running_example
        [FaceResult True 10900, Tick (ok_obs 14100 ''running'' None)]) = None
   \<and> calls (run running_example
        [FaceResult True 10900, Tick (ok_obs 14100 ''running'' None)])
       = [CallStartScan ''pos'' 45, CallReset, CallStartScan ''pos'' 45]
   \<and> scanStartTime (run running_example
        [FaceResult True 10900, Tick (ok_obs 14100 ''running'' None)]) = 1000
   \<and> progress (run running_example
        [FaceResult True 10900, Tick (ok_obs 14100 ''running'' None),
         FaceResult True 14500, Tick (ok_obs 14600 ''running'' None)]) = 272 / 9
   \<and> \<not> onCompleteScheduled (run running_example
        [FaceResult True 10900, Tick (ok_obs 14100 ''running'' None),
         FaceResult True 14500, Tick (ok_obs 14600 ''running'' None),
         FaceResult True 45400, Tick (ok_obs 45500 ''running'' None)])
   \<and> onCompleteScheduled (run running_example
        [FaceResult True 10900, Tick (ok_obs 14100 ''running'' None),
         FaceResult True 14500, Tick (ok_obs 14600 ''running'' None),
         FaceResult True 45400, Tick (ok_obs 45500 ''running'' None),
         FaceResult True 45900, Tick (ok_obs 46000 ''running'' None)])
   \<and> calls (pollTick (run running_example [FaceResult True 10900])
        ((ok_obs 14100 ''running'' None)\<lparr>reset_ok := False\<rparr>))
       = [CallStartScan ''pos'' 45, CallReset]"
proof (intro conjI)
  show "scanStartTime (pollTick s obs) = scanStartTime s"
    by (rule pollTick_scanStartTime)
qed (simp_all add: scenario_defs tick_defs Let_def)

end
